theory Spec2Isabelle
  imports Complex_Main "HOL-Library.Sublist"
begin

section \<open>Python strings\<close>

text \<open>
  Text is a list of 8-bit code points. Case folding and the whitespace test follow the
  tables of Python's \<^verbatim>\<open>str.lower\<close> and \<^verbatim>\<open>str.isspace\<close> on that range.
\<close>

definition py_isspace :: "char \<Rightarrow> bool" where
  "py_isspace c =
     (let n = (of_char c :: nat)
      in (9 \<le> n \<and> n \<le> 13) \<or> (28 \<le> n \<and> n \<le> 32) \<or> n = 133 \<or> n = 160)"

definition lower_char :: "char \<Rightarrow> char" where
  "lower_char c =
     (let n = (of_char c :: nat)
      in if (65 \<le> n \<and> n \<le> 90) \<or> (192 \<le> n \<and> n \<le> 222 \<and> n \<noteq> 215)
         then char_of (n + 32) else c)"

definition py_lower :: "string \<Rightarrow> string" where
  "py_lower s = map lower_char s"



text \<open>\<^verbatim>\<open>sub in s\<close>.\<close>

fun py_in :: "string \<Rightarrow> string \<Rightarrow> bool" where
  "py_in sub [] = (sub = [])"
| "py_in sub (c # cs) = (prefix sub (c # cs) \<or> py_in sub cs)"

text \<open>
  \<^verbatim>\<open>s.find(sub, start)\<close>: the least index \<open>i \<ge> start\<close> at which \<open>sub\<close> occurs, or \<open>-1\<close>.
  \<open>find_at sub rest i\<close> searches the suffix \<open>rest\<close> that begins at index \<open>i\<close>.
\<close>

fun find_at :: "string \<Rightarrow> string \<Rightarrow> nat \<Rightarrow> int" where
  "find_at sub [] i = (if sub = [] then int i else - 1)"
| "find_at sub (c # cs) i = (if prefix sub (c # cs) then int i else find_at sub cs (Suc i))"

definition py_find :: "string \<Rightarrow> string \<Rightarrow> nat \<Rightarrow> int" where
  "py_find s sub start = (if start > length s then - 1 else find_at sub (drop start s) start)"

text \<open>\<^verbatim>\<open>s[a:b]\<close> and \<^verbatim>\<open>s[a:]\<close> for indices that are not negative.\<close>

definition py_slice :: "string \<Rightarrow> int \<Rightarrow> int \<Rightarrow> string" where
  "py_slice s a b = take (nat b - nat a) (drop (nat a) s)"

definition py_slice_from :: "string \<Rightarrow> int \<Rightarrow> string" where
  "py_slice_from s a = drop (nat a) s"

definition py_strip :: "string \<Rightarrow> string" where
  "py_strip s = rev (dropWhile py_isspace (rev (dropWhile py_isspace s)))"

definition quoted :: "string \<Rightarrow> string" where
  "quoted s = CHR 0x27 # s @ [CHR 0x27]"

section \<open>Exceptions\<close>

text \<open>
  An exception is its class and its message (\<^verbatim>\<open>str(e)\<close>). \<open>NonExceptionBase\<close> stands for
  the classes that derive from \<^verbatim>\<open>BaseException\<close> but not from \<^verbatim>\<open>Exception\<close>
  (\<^verbatim>\<open>KeyboardInterrupt\<close>, \<^verbatim>\<open>SystemExit\<close>, \<^verbatim>\<open>GeneratorExit\<close>): a handler
  \<^verbatim>\<open>except Exception\<close> lets them pass.
\<close>

datatype exc_class =
  ValueError | AttributeError | TypeError | YAMLError | OSError | OtherException
  | NonExceptionBase

datatype py_exc = PyExc exc_class string

fun exc_class_of :: "py_exc \<Rightarrow> exc_class" where
  "exc_class_of (PyExc c m) = c"


definition is_Exception :: "py_exc \<Rightarrow> bool" where
  "is_Exception e = (exc_class_of e \<noteq> NonExceptionBase)"

section \<open>Values of a YAML document\<close>

datatype yaml =
  YNull | YBool bool | YInt int | YFloat rat | YStr string
  | YList "yaml list" | YMap "(yaml \<times> yaml) list"

text \<open>Truth value of a Python object, as \<^verbatim>\<open>not x\<close> reads it.\<close>

fun truthy :: "yaml \<Rightarrow> bool" where
  "truthy YNull = False"
| "truthy (YBool b) = b"
| "truthy (YInt i) = (i \<noteq> 0)"
| "truthy (YFloat r) = (r \<noteq> 0)"
| "truthy (YStr s) = (s \<noteq> [])"
| "truthy (YList xs) = (xs \<noteq> [])"
| "truthy (YMap m) = (m \<noteq> [])"

fun type_name :: "yaml \<Rightarrow> string" where
  "type_name YNull = ''NoneType''"
| "type_name (YBool b) = ''bool''"
| "type_name (YInt i) = ''int''"
| "type_name (YFloat r) = ''float''"
| "type_name (YStr s) = ''str''"
| "type_name (YList xs) = ''list''"
| "type_name (YMap m) = ''dict''"

definition no_attribute :: "yaml \<Rightarrow> string \<Rightarrow> py_exc" where
  "no_attribute v attr =
     PyExc AttributeError
       (quoted (type_name v) @ '' object has no attribute '' @ quoted attr)"

text \<open>\<^verbatim>\<open>d.get(key, default)\<close>: only a mapping has the method.\<close>

fun dict_get :: "yaml \<Rightarrow> string \<Rightarrow> yaml \<Rightarrow> py_exc + yaml" where
  "dict_get (YMap m) key dflt =
     Inr (case map_of m (YStr key) of Some v \<Rightarrow> v | None \<Rightarrow> dflt)"
| "dict_get v key dflt = Inl (no_attribute v ''get'')"

text \<open>
  Dictionary keys: lists and mappings are not hashable; numbers and booleans of equal
  value are the same key.
\<close>

fun hashable :: "yaml \<Rightarrow> bool" where
  "hashable (YList xs) = False"
| "hashable (YMap m) = False"
| "hashable v = True"

fun key_num :: "yaml \<Rightarrow> rat option" where
  "key_num (YBool b) = Some (if b then 1 else 0)"
| "key_num (YInt i) = Some (of_int i)"
| "key_num (YFloat r) = Some r"
| "key_num v = None"

definition py_key_eq :: "yaml \<Rightarrow> yaml \<Rightarrow> bool" where
  "py_key_eq a b =
     (case (key_num a, key_num b) of
        (Some x, Some y) \<Rightarrow> x = y
      | (None, None) \<Rightarrow> a = b
      | _ \<Rightarrow> False)"

definition dict_set :: "(yaml \<times> 'v) list \<Rightarrow> yaml \<Rightarrow> 'v \<Rightarrow> py_exc + (yaml \<times> 'v) list" where
  "dict_set d k v =
     (if \<not> hashable k then Inl (PyExc TypeError (''unhashable type: '' @ quoted (type_name k)))
      else if list_ex (\<lambda>kv. py_key_eq (fst kv) k) d
      then Inr (map (\<lambda>kv. if py_key_eq (fst kv) k then (fst kv, v) else kv) d)
      else Inr (d @ [(k, v)]))"

section \<open>Insertion-ordered dictionaries with string keys\<close>

definition od_contains :: "string \<Rightarrow> (string \<times> 'v) list \<Rightarrow> bool" where
  "od_contains k d = (k \<in> set (map fst d))"

definition od_del :: "string \<Rightarrow> (string \<times> 'v) list \<Rightarrow> (string \<times> 'v) list" where
  "od_del k d = filter (\<lambda>kv. fst kv \<noteq> k) d"

definition od_set :: "string \<Rightarrow> 'v \<Rightarrow> (string \<times> 'v) list \<Rightarrow> (string \<times> 'v) list" where
  "od_set k v d =
     (if od_contains k d then map (\<lambda>kv. if fst kv = k then (k, v) else kv) d
      else d @ [(k, v)])"

section \<open>The world outside the program\<close>

text \<open>
  What the file system and the imported libraries answer is a parameter of the model:
  the paths that exist, the text of each file, the document \<^verbatim>\<open>yaml.safe_load\<close>
  builds from a text, the attributes of the module that executing a Python file yields,
  and the matches of the two regular expressions of \<^verbatim>\<open>_load_additional_resources\<close>.
\<close>

datatype py_type = TStr | TDict | TList | TBool | TInt | TFloat | TOther string

text \<open>
  An attribute of a loaded module, as the registration strategies inspect it:
  \<open>skill_tool\<close> is \<open>None\<close> when the object has no attribute \<^verbatim>\<open>__skill_tool__\<close> and
  otherwise the truth value of that attribute; \<open>doc\<close> is \<^verbatim>\<open>__doc__\<close>; \<open>annotations\<close>
  is \<^verbatim>\<open>__annotations__\<close>, \<open>None\<close> when the object has no such attribute.
\<close>

record py_attr =
  is_callable :: bool
  skill_tool :: "bool option"
  skill_tool_description :: "string option"
  doc :: "string option"
  annotations :: "(string \<times> py_type) list option"

type_synonym py_module = "(string \<times> py_attr) list"

record py_file =
  file_path :: string
  file_name :: string
  file_stem :: string

record env =
  path_exists :: "string \<Rightarrow> bool"
  path_is_dir :: "string \<Rightarrow> bool"
  iterdir :: "string \<Rightarrow> py_exc + string list"
  read_text :: "string \<Rightarrow> py_exc + string"
  safe_load :: "string \<Rightarrow> py_exc + yaml"
  glob_py :: "string \<Rightarrow> py_file list"
  glob_scripts_py :: "string \<Rightarrow> py_file list"
  exec_module :: "string \<Rightarrow> string \<Rightarrow> py_exc + py_module"
  findall_links :: "string \<Rightarrow> (string \<times> string) list"
  findall_includes :: "string \<Rightarrow> string list"

definition path_join :: "string \<Rightarrow> string \<Rightarrow> string" where
  "path_join d f = d @ ''/'' @ f"

section \<open>The toolkit\<close>

text \<open>
  \<^verbatim>\<open>Toolkit\<close> belongs to the agentscope library. The manager calls three of its methods and
  reads its \<^verbatim>\<open>tools\<close> dictionary; they are modelled by what they do to the groups and to
  the registered tools: a group is created once, a tool is registered under the name of
  its function into an existing group and a second function of the same name is refused,
  and updating the activity of a group that does not exist changes nothing. Of a
  registered function the model keeps the group and the docstring it was registered with.
\<close>

record tool_group =
  group_active :: bool
  group_description :: yaml

record registered_tool =
  tool_group_name :: string
  tool_doc :: "string option"

record toolkit =
  groups :: "(string \<times> tool_group) list"
  tools :: "(string \<times> registered_tool) list"

definition new_toolkit :: toolkit where
  "new_toolkit = \<lparr>groups = [], tools = []\<rparr>"

definition create_tool_group :: "toolkit \<Rightarrow> string \<Rightarrow> yaml \<Rightarrow> bool \<Rightarrow> py_exc + toolkit" where
  "create_tool_group tk group_name descr active =
     (if od_contains group_name (groups tk) \<or> group_name = ''basic''
      then Inl (PyExc ValueError
                  (''Tool group '' @ quoted group_name @ '' is already registered in the toolkit.''))
      else Inr (tk\<lparr>groups := groups tk
                  @ [(group_name, \<lparr>group_active = active, group_description = descr\<rparr>)]\<rparr>))"

definition register_tool_function ::
  "toolkit \<Rightarrow> string \<Rightarrow> string option \<Rightarrow> string \<Rightarrow> py_exc + toolkit" where
  "register_tool_function tk func_name func_doc group_name =
     (if \<not> od_contains group_name (groups tk) \<and> group_name \<noteq> ''basic''
      then Inl (PyExc ValueError (''Tool group '' @ quoted group_name @ '' not found.''))
      else if od_contains func_name (tools tk)
      then Inl (PyExc ValueError
                  (''A function with name '' @ quoted func_name @ '' is already registered.''))
      else Inr (tk\<lparr>tools := tools tk
                  @ [(func_name, \<lparr>tool_group_name = group_name, tool_doc = func_doc\<rparr>)]\<rparr>))"

definition update_tool_groups :: "toolkit \<Rightarrow> string list \<Rightarrow> bool \<Rightarrow> toolkit" where
  "update_tool_groups tk group_names active =
     tk\<lparr>groups := map (\<lambda>g. if fst g \<in> set group_names
                              then (fst g, (snd g)\<lparr>group_active := active\<rparr>) else g)
                       (groups tk)\<rparr>"

section \<open>Skill metadata and the manifest parser\<close>

text \<open>
  \<^verbatim>\<open>SkillMetadata\<close>. The five fields read from the front matter hold whatever value the
  document gives them: the dataclass declares their types and does not check them.
\<close>

record skill_metadata =
  name :: yaml
  description :: yaml
  directory :: string
  skill_file_path :: string
  dependencies :: yaml
  version :: yaml
  author :: yaml

definition post_init :: "skill_metadata \<Rightarrow> skill_metadata" where
  "post_init m = (if dependencies m = YNull then m\<lparr>dependencies := YList []\<rparr> else m)"

definition missing_fields :: py_exc where
  "missing_fields =
     PyExc ValueError
       (''Missing required fields '' @ quoted ''name'' @ '' or '' @ quoted ''description'')"

text \<open>The body of the \<^verbatim>\<open>try\<close> block of \<^verbatim>\<open>_parse_skill_metadata\<close>.\<close>

definition parse_frontmatter ::
  "(string \<Rightarrow> py_exc + yaml) \<Rightarrow> string \<Rightarrow> string \<Rightarrow> string \<Rightarrow> py_exc + skill_metadata" where
  "parse_frontmatter load skill_dir skill_file content =
     (let end_index = py_find content ''---'' 3
      in if end_index = - 1 then Inl (PyExc ValueError ''Invalid YAML frontmatter format'')
         else
           (let yaml_content = py_strip (py_slice content 3 end_index)
            in case load yaml_content of
                 Inl e \<Rightarrow> Inl e
               | Inr frontmatter \<Rightarrow>
                   (case dict_get frontmatter ''name'' YNull of
                      Inl e \<Rightarrow> Inl e
                    | Inr name_v \<Rightarrow>
                        (case dict_get frontmatter ''description'' YNull of
                           Inl e \<Rightarrow> Inl e
                         | Inr description_v \<Rightarrow>
                             if \<not> truthy name_v \<or> \<not> truthy description_v
                             then Inl missing_fields
                             else
                               (case dict_get frontmatter ''dependencies'' (YList []) of
                                  Inl e \<Rightarrow> Inl e
                                | Inr dependencies_v \<Rightarrow>
                                    (case dict_get frontmatter ''version'' (YStr ''1.0.0'') of
                                       Inl e \<Rightarrow> Inl e
                                     | Inr version_v \<Rightarrow>
                                         (case dict_get frontmatter ''author'' (YStr []) of
                                            Inl e \<Rightarrow> Inl e
                                          | Inr author_v \<Rightarrow>
                                              Inr (post_init
                                                \<lparr>name = name_v, description = description_v,
                                                 directory = skill_dir,
                                                 skill_file_path = skill_file,
                                                 dependencies = dependencies_v,
                                                 version = version_v,
                                                 author = author_v\<rparr>))))))))"

text \<open>\<^verbatim>\<open>_parse_skill_metadata\<close> on the text it has read from the manifest file.\<close>

definition parse_manifest ::
  "(string \<Rightarrow> py_exc + yaml) \<Rightarrow> string \<Rightarrow> string \<Rightarrow> string \<Rightarrow> py_exc + skill_metadata" where
  "parse_manifest load skill_dir skill_file content =
     (if prefix ''---'' content
      then (case parse_frontmatter load skill_dir skill_file content of
              Inl (PyExc YAMLError m) \<Rightarrow>
                Inl (PyExc ValueError (''Invalid YAML in frontmatter: '' @ m))
            | r \<Rightarrow> r)
      else Inl (PyExc ValueError ''SKILL.md must start with YAML frontmatter''))"

definition parse_skill_metadata :: "env \<Rightarrow> string \<Rightarrow> string \<Rightarrow> py_exc + skill_metadata" where
  "parse_skill_metadata e skill_dir skill_file =
     (case read_text e skill_file of
        Inl err \<Rightarrow> Inl err
      | Inr content \<Rightarrow> parse_manifest (safe_load e) skill_dir skill_file content)"

text \<open>A required key is missing from a mapping or its value is empty.\<close>

definition field_missing :: "(yaml \<times> yaml) list \<Rightarrow> string \<Rightarrow> bool" where
  "field_missing m key = (case map_of m (YStr key) of None \<Rightarrow> True | Some v \<Rightarrow> \<not> truthy v)"

text \<open>
  The text \<open>t\<close> is a front matter \<open>fm\<close> between two markers followed by \<open>rest\<close>, the
  closing marker being the first occurrence of the marker after the opening one.
\<close>

definition manifest_parts :: "string \<Rightarrow> string \<Rightarrow> string \<Rightarrow> bool" where
  "manifest_parts t fm rest =
     (t = ''---'' @ fm @ ''---'' @ rest
      \<and> list_all (\<lambda>i. \<not> prefix ''---'' (drop i (fm @ ''---'' @ rest))) [0..<length fm])"

section \<open>Tool registration\<close>

text \<open>
  \<^verbatim>\<open>wrapped_tool\<close>, the closure each strategy builds around a callable \<open>attr\<close>. A call of
  \<open>attr\<close> returns a string, a \<^verbatim>\<open>ToolResponse\<close> or some other value, or raises;
  \<open>str_of\<close> is \<^verbatim>\<open>str\<close> on the other values.
\<close>

record text_block =
  block_type :: string
  block_text :: string

record tool_response =
  content :: "text_block list"
  is_last :: bool




text \<open>
  A strategy walks the attributes of a module in the order of \<^verbatim>\<open>dir(module)\<close>, counts
  what it registers and changes the toolkit; when a registration raises, the toolkit is
  as it was before that registration.
\<close>

type_synonym reg_result = "(py_exc \<times> toolkit) + (nat \<times> toolkit)"

definition doc_missing :: "py_attr \<Rightarrow> bool" where
  "doc_missing a = (case doc a of None \<Rightarrow> True | Some d \<Rightarrow> d = [])"

fun register_explicit_loop :: "py_module \<Rightarrow> string \<Rightarrow> nat \<Rightarrow> toolkit \<Rightarrow> reg_result" where
  "register_explicit_loop [] skill_name count tk = Inr (count, tk)"
| "register_explicit_loop ((attr_name, attr) # rest) skill_name count tk =
     (if is_callable attr \<and> skill_tool attr = Some True
      then (if od_contains attr_name (tools tk)
            then register_explicit_loop rest skill_name count tk
            else (case register_tool_function tk attr_name (doc attr) skill_name of
                    Inl e \<Rightarrow> Inl (e, tk)
                  | Inr tk' \<Rightarrow> register_explicit_loop rest skill_name (count + 1) tk'))
      else register_explicit_loop rest skill_name count tk)"

definition register_explicit_tools :: "py_module \<Rightarrow> string \<Rightarrow> toolkit \<Rightarrow> reg_result" where
  "register_explicit_tools mdl skill_name tk = register_explicit_loop mdl skill_name 0 tk"

definition tool_patterns :: "string list" where
  "tool_patterns =
     [''extract_'', ''analyze_'', ''process_'', ''convert_'',
      ''create_'', ''generate_'', ''check_'', ''get_'',
      ''parse_'', ''transform_'', ''validate_'', ''search_'']"

definition matches_tool_pattern :: "string \<Rightarrow> bool" where
  "matches_tool_pattern attr_name =
     list_ex (\<lambda>pattern. py_in pattern (py_lower attr_name)) tool_patterns"

fun register_naming_loop :: "py_module \<Rightarrow> string \<Rightarrow> nat \<Rightarrow> toolkit \<Rightarrow> reg_result" where
  "register_naming_loop [] skill_name count tk = Inr (count, tk)"
| "register_naming_loop ((attr_name, attr) # rest) skill_name count tk =
     (if is_callable attr \<and> skill_tool attr = None
      then (if matches_tool_pattern attr_name
            then (if od_contains attr_name (tools tk)
                  then register_naming_loop rest skill_name count tk
                  else (case register_tool_function tk attr_name (doc attr) skill_name of
                          Inl e \<Rightarrow> Inl (e, tk)
                        | Inr tk' \<Rightarrow> register_naming_loop rest skill_name (count + 1) tk'))
            else register_naming_loop rest skill_name count tk)
      else register_naming_loop rest skill_name count tk)"

definition register_by_naming_convention :: "py_module \<Rightarrow> string \<Rightarrow> toolkit \<Rightarrow> reg_result" where
  "register_by_naming_convention mdl skill_name tk =
     register_naming_loop mdl skill_name 0 tk"

definition typing_names :: "string list" where
  "typing_names =
     [''Any'', ''Dict'', ''List'', ''Optional'', ''Tuple'', ''Set'', ''Union'', ''Type'',
      ''Optional'']"

definition tool_indicators :: "string list" where
  "tool_indicators =
     [''tool:'', ''extract'', ''analyze'', ''process'', ''convert'',
      ''create'', ''generate'', ''check'', ''parse'', ''transform'',
      ''validate'', ''search'', ''function:'', ''method:'']"

definition is_tool_docstring :: "string option \<Rightarrow> bool" where
  "is_tool_docstring d =
     (case d of
        None \<Rightarrow> False
      | Some text \<Rightarrow>
          if text = [] then False
          else list_ex (\<lambda>indicator. py_in indicator (py_lower text)) tool_indicators)"

text \<open>
  \<^verbatim>\<open>_register_by_docstring_analysis\<close>. In the source the statements that test the
  docstring and register the tool are indented under the \<^verbatim>\<open>if\<close> whose first statement
  is \<^verbatim>\<open>continue\<close>: they never run. An attribute that the test skips and an attribute
  that it does not skip both leave the loop body with nothing done.
\<close>

fun register_docstring_loop :: "py_module \<Rightarrow> string \<Rightarrow> nat \<Rightarrow> toolkit \<Rightarrow> reg_result" where
  "register_docstring_loop [] skill_name count tk = Inr (count, tk)"
| "register_docstring_loop ((attr_name, attr) # rest) skill_name count tk =
     (if \<not> is_callable attr \<or> prefix ''_'' attr_name \<or> skill_tool attr \<noteq> None
         \<or> doc_missing attr \<or> attr_name \<in> set typing_names
      then register_docstring_loop rest skill_name count tk
      else register_docstring_loop rest skill_name count tk)"

definition register_by_docstring_analysis :: "py_module \<Rightarrow> string \<Rightarrow> toolkit \<Rightarrow> reg_result" where
  "register_by_docstring_analysis mdl skill_name tk =
     register_docstring_loop mdl skill_name 0 tk"

fun type_str :: "py_type \<Rightarrow> string" where
  "type_str TStr = ''<class '' @ quoted ''str'' @ ''>''"
| "type_str TDict = ''<class '' @ quoted ''dict'' @ ''>''"
| "type_str TList = ''<class '' @ quoted ''list'' @ ''>''"
| "type_str TBool = ''<class '' @ quoted ''bool'' @ ''>''"
| "type_str TInt = ''<class '' @ quoted ''int'' @ ''>''"
| "type_str TFloat = ''<class '' @ quoted ''float'' @ ''>''"
| "type_str (TOther s) = s"

fun is_tool_return_type :: "py_type \<Rightarrow> bool" where
  "is_tool_return_type (TOther s) = False"
| "is_tool_return_type t = True"

fun register_type_hints_loop :: "py_module \<Rightarrow> string \<Rightarrow> nat \<Rightarrow> toolkit \<Rightarrow> reg_result" where
  "register_type_hints_loop [] skill_name count tk = Inr (count, tk)"
| "register_type_hints_loop ((attr_name, attr) # rest) skill_name count tk =
     (if is_callable attr \<and> skill_tool attr = None \<and> doc_missing attr
      then (case annotations attr of
              None \<Rightarrow> register_type_hints_loop rest skill_name count tk
            | Some anns \<Rightarrow>
                (case map_of anns ''return'' of
                   None \<Rightarrow> register_type_hints_loop rest skill_name count tk
                 | Some return_type \<Rightarrow>
                     if is_tool_return_type return_type
                     then (if od_contains attr_name (tools tk)
                           then register_type_hints_loop rest skill_name count tk
                           else (case register_tool_function tk attr_name
                                        (Some (''Tool function with return type: ''
                                               @ type_str return_type))
                                        skill_name of
                                   Inl e \<Rightarrow> Inl (e, tk)
                                 | Inr tk' \<Rightarrow>
                                     register_type_hints_loop rest skill_name (count + 1) tk'))
                     else register_type_hints_loop rest skill_name count tk))
      else register_type_hints_loop rest skill_name count tk)"

definition register_by_type_hints :: "py_module \<Rightarrow> string \<Rightarrow> toolkit \<Rightarrow> reg_result" where
  "register_by_type_hints mdl skill_name tk = register_type_hints_loop mdl skill_name 0 tk"

text \<open>
  \<^verbatim>\<open>_generate_tool_description\<close>. No strategy calls it. \<^verbatim>\<open>split('_')\<close> cuts at every
  underscore; \<^verbatim>\<open>title()\<close> is modelled on the letters A to Z.
\<close>

fun split_on :: "char \<Rightarrow> string \<Rightarrow> string \<Rightarrow> string list" where
  "split_on sep w [] = [w]"
| "split_on sep w (c # cs) =
     (if c = sep then w # split_on sep [] cs else split_on sep (w @ [c]) cs)"

fun join_with :: "string \<Rightarrow> string list \<Rightarrow> string" where
  "join_with sep [] = []"
| "join_with sep [p] = p"
| "join_with sep (p # q # ps) = p @ sep @ join_with sep (q # ps)"

definition is_upper_ascii :: "char \<Rightarrow> bool" where
  "is_upper_ascii c = (let n = (of_char c :: nat) in 65 \<le> n \<and> n \<le> 90)"

definition is_lower_ascii :: "char \<Rightarrow> bool" where
  "is_lower_ascii c = (let n = (of_char c :: nat) in 97 \<le> n \<and> n \<le> 122)"

definition upper_ascii :: "char \<Rightarrow> char" where
  "upper_ascii c = (if is_lower_ascii c then char_of ((of_char c :: nat) - 32) else c)"

definition lower_ascii :: "char \<Rightarrow> char" where
  "lower_ascii c = (if is_upper_ascii c then char_of ((of_char c :: nat) + 32) else c)"

fun title_from :: "bool \<Rightarrow> string \<Rightarrow> string" where
  "title_from previous_is_cased [] = []"
| "title_from previous_is_cased (c # cs) =
     (if is_lower_ascii c \<or> is_upper_ascii c
      then (if previous_is_cased then lower_ascii c else upper_ascii c) # title_from True cs
      else c # title_from False cs)"

definition py_title :: "string \<Rightarrow> string" where
  "py_title s = title_from False s"

definition replace_underscores :: "string \<Rightarrow> string" where
  "replace_underscores s = map (\<lambda>c. if c = CHR ''_'' then CHR '' '' else c) s"

definition descriptions :: "string \<Rightarrow> (string \<times> string) list" where
  "descriptions object_name =
     [(''extract'', ''Extract '' @ object_name),
      (''analyze'', ''Analyze '' @ object_name),
      (''process'', ''Process '' @ object_name),
      (''convert'', ''Convert '' @ object_name),
      (''create'', ''Create '' @ object_name),
      (''generate'', ''Generate '' @ object_name),
      (''check'', ''Check '' @ object_name),
      (''get'', ''Get '' @ object_name),
      (''parse'', ''Parse '' @ object_name),
      (''transform'', ''Transform '' @ object_name),
      (''validate'', ''Validate '' @ object_name),
      (''search'', ''Search '' @ object_name)]"

definition generate_tool_description :: "string \<Rightarrow> string" where
  "generate_tool_description attr_name =
     (case split_on CHR ''_'' [] attr_name of
        action # p # ps \<Rightarrow>
          (case map_of (descriptions (join_with ''_'' (p # ps))) action of
             Some d \<Rightarrow> d
           | None \<Rightarrow> py_title (replace_underscores attr_name))
      | _ \<Rightarrow> py_title (replace_underscores attr_name))"

text \<open>
  \<^verbatim>\<open>_register_skill_tools\<close>: every Python file of the skill directory and of its
  \<^verbatim>\<open>scripts\<close> subdirectory is executed as a module and run through the four strategies;
  an \<^verbatim>\<open>Exception\<close> raised for one file is logged and the next file is taken.
\<close>

definition register_module :: "py_module \<Rightarrow> string \<Rightarrow> toolkit \<Rightarrow> reg_result" where
  "register_module mdl skill_name tk =
     (case register_explicit_tools mdl skill_name tk of
        Inl err \<Rightarrow> Inl err
      | Inr (c1, tk1) \<Rightarrow>
          (case register_by_naming_convention mdl skill_name tk1 of
             Inl err \<Rightarrow> Inl err
           | Inr (c2, tk2) \<Rightarrow>
               (case register_by_docstring_analysis mdl skill_name tk2 of
                  Inl err \<Rightarrow> Inl err
                | Inr (c3, tk3) \<Rightarrow>
                    (case register_by_type_hints mdl skill_name tk3 of
                       Inl err \<Rightarrow> Inl err
                     | Inr (c4, tk4) \<Rightarrow> Inr (c1 + c2 + c3 + c4, tk4)))))"

fun register_files :: "env \<Rightarrow> string \<Rightarrow> py_file list \<Rightarrow> toolkit \<Rightarrow> (py_exc \<times> toolkit) + toolkit" where
  "register_files e skill_name [] tk = Inr tk"
| "register_files e skill_name (py_file # rest) tk =
     (if file_name py_file = ''__init__.py'' then register_files e skill_name rest tk
      else
        (case (case exec_module e (''skill_'' @ skill_name @ ''_'' @ file_stem py_file)
                      (file_path py_file) of
                 Inl err \<Rightarrow> Inl (err, tk)
               | Inr mdl \<Rightarrow> register_module mdl skill_name tk) of
           Inr (tool_count, tk') \<Rightarrow> register_files e skill_name rest tk'
         | Inl (err, tk') \<Rightarrow>
             if is_Exception err then register_files e skill_name rest tk'
             else Inl (err, tk')))"

definition register_skill_tools ::
  "env \<Rightarrow> toolkit \<Rightarrow> string \<Rightarrow> string \<Rightarrow> (py_exc \<times> toolkit) + toolkit" where
  "register_skill_tools e tk skill_name skill_dir =
     register_files e skill_name (glob_py e skill_dir @ glob_scripts_py e skill_dir) tk"

definition get_skill_tools :: "toolkit \<Rightarrow> string \<Rightarrow> string list" where
  "get_skill_tools tk skill_name =
     map fst (filter (\<lambda>t. tool_group_name (snd t) = skill_name) (tools tk))"

text \<open>
  The attributes the naming strategy takes from a module, given the toolkit it starts
  from: callable, without the attribute \<^verbatim>\<open>__skill_tool__\<close>, with a pattern in the
  lower-cased name, and with a name that is not yet a registered tool.
\<close>

definition naming_candidates :: "py_module \<Rightarrow> toolkit \<Rightarrow> py_module" where
  "naming_candidates mdl tk =
     filter (\<lambda>na. is_callable (snd na) \<and> skill_tool (snd na) = None
                   \<and> matches_tool_pattern (fst na) \<and> \<not> od_contains (fst na) (tools tk)) mdl"

definition registered_as :: "string \<Rightarrow> string \<times> py_attr \<Rightarrow> string \<times> registered_tool" where
  "registered_as skill_name na =
     (fst na, \<lparr>tool_group_name = skill_name, tool_doc = doc (snd na)\<rparr>)"

section \<open>The skill manager\<close>

text \<open>
  An entry of \<^verbatim>\<open>loaded_skills\<close>: the dictionary with the keys \<^verbatim>\<open>metadata\<close>,
  \<^verbatim>\<open>content\<close>, \<^verbatim>\<open>additional_resources\<close> and \<^verbatim>\<open>tools\<close>.
\<close>

record loaded_skill =
  ls_metadata :: skill_metadata
  ls_content :: string
  ls_additional_resources :: "(string \<times> string) list"
  ls_tools :: "string list"

record manager =
  skill_directory :: string
  discovered_skills :: "(yaml \<times> skill_metadata) list"
  loaded_skills :: "(string \<times> loaded_skill) list"
  toolkit :: toolkit

definition new_manager :: "string \<Rightarrow> manager" where
  "new_manager skill_dir =
     \<lparr>skill_directory = skill_dir, discovered_skills = [], loaded_skills = [],
      toolkit = new_toolkit\<rparr>"

text \<open>
  The public methods take the skill name as a string: it is a key of
  \<^verbatim>\<open>discovered_skills\<close> when some entry has that string as its key.
\<close>

definition discovered :: "manager \<Rightarrow> string \<Rightarrow> skill_metadata option" where
  "discovered self skill_name = map_of (discovered_skills self) (YStr skill_name)"

subsection \<open>Discovery\<close>

fun discover_loop ::
  "env \<Rightarrow> string list \<Rightarrow> (yaml \<times> skill_metadata) list \<Rightarrow> py_exc + (yaml \<times> skill_metadata) list" where
  "discover_loop e [] skills = Inr skills"
| "discover_loop e (skill_dir # rest) skills =
     (if \<not> path_is_dir e skill_dir then discover_loop e rest skills
      else
        (let skill_file = path_join skill_dir ''SKILL.md''
         in if \<not> path_exists e skill_file then discover_loop e rest skills
            else
              (case (case parse_skill_metadata e skill_dir skill_file of
                       Inl err \<Rightarrow> Inl err
                     | Inr metadata \<Rightarrow> dict_set skills (name metadata) metadata) of
                 Inr skills' \<Rightarrow> discover_loop e rest skills'
               | Inl err \<Rightarrow>
                   if is_Exception err then discover_loop e rest skills else Inl err)))"

definition discover_skills ::
  "env \<Rightarrow> manager \<Rightarrow> py_exc + ((yaml \<times> skill_metadata) list \<times> manager)" where
  "discover_skills e self =
     (if \<not> path_exists e (skill_directory self) then Inr ([], self)
      else
        (case iterdir e (skill_directory self) of
           Inl err \<Rightarrow> Inl err
         | Inr entries \<Rightarrow>
             (case discover_loop e entries [] of
                Inl err \<Rightarrow> Inl err
              | Inr skills \<Rightarrow> Inr (skills, self\<lparr>discovered_skills := skills\<rparr>))))"

subsection \<open>Loading\<close>

text \<open>The text after the front matter, as \<^verbatim>\<open>load_skill\<close> cuts it out of the manifest.\<close>

definition extract_body :: "string \<Rightarrow> string" where
  "extract_body text =
     (if prefix ''---'' text
      then (let end_index = py_find text ''---'' 3
            in py_strip (py_slice_from text (end_index + 3)))
      else text)"

fun load_links ::
  "env \<Rightarrow> string \<Rightarrow> (string \<times> string) list \<Rightarrow> (string \<times> string) list
   \<Rightarrow> py_exc + (string \<times> string) list" where
  "load_links e skill_dir [] resources = Inr resources"
| "load_links e skill_dir ((link_text, filename) # rest) resources =
     (let fpath = path_join skill_dir (filename @ ''.md'')
      in if path_exists e fpath
         then (case read_text e fpath of
                 Inl err \<Rightarrow> Inl err
               | Inr text \<Rightarrow> load_links e skill_dir rest (od_set filename text resources))
         else load_links e skill_dir rest resources)"

fun load_includes ::
  "env \<Rightarrow> string \<Rightarrow> string list \<Rightarrow> (string \<times> string) list
   \<Rightarrow> py_exc + (string \<times> string) list" where
  "load_includes e skill_dir [] resources = Inr resources"
| "load_includes e skill_dir (filename # rest) resources =
     (let fpath = path_join skill_dir filename
      in if path_exists e fpath
         then (case read_text e fpath of
                 Inl err \<Rightarrow> Inl err
               | Inr text \<Rightarrow> load_includes e skill_dir rest (od_set filename text resources))
         else load_includes e skill_dir rest resources)"

definition load_additional_resources ::
  "env \<Rightarrow> string \<Rightarrow> string \<Rightarrow> py_exc + (string \<times> string) list" where
  "load_additional_resources e text skill_dir =
     (case load_links e skill_dir (findall_links e text) [] of
        Inl err \<Rightarrow> Inl err
      | Inr resources \<Rightarrow> load_includes e skill_dir (findall_includes e text) resources)"

text \<open>
  \<^verbatim>\<open>load_skill\<close> returns the loaded skill and the manager it leaves, or the exception
  it raises and the manager as it is at that point.
\<close>

definition load_skill ::
  "env \<Rightarrow> manager \<Rightarrow> string \<Rightarrow> (py_exc \<times> manager) + (loaded_skill \<times> manager)" where
  "load_skill e self skill_name =
     (case discovered self skill_name of
        None \<Rightarrow>
          Inl (PyExc ValueError
                 (''Skill '' @ quoted skill_name @ '' not found in discovered skills''), self)
      | Some metadata \<Rightarrow>
          (case map_of (loaded_skills self) skill_name of
             Some skill_data \<Rightarrow> Inr (skill_data, self)
           | None \<Rightarrow>
               (case read_text e (skill_file_path metadata) of
                  Inl err \<Rightarrow> Inl (err, self)
                | Inr text \<Rightarrow>
                    (let skill_content = extract_body text
                     in case load_additional_resources e skill_content (directory metadata) of
                          Inl err \<Rightarrow> Inl (err, self)
                        | Inr additional_resources \<Rightarrow>
                            (case create_tool_group (toolkit self) skill_name
                                    (description metadata) False of
                               Inl err \<Rightarrow> Inl (err, self)
                             | Inr tk1 \<Rightarrow>
                                 (case register_skill_tools e tk1 skill_name
                                         (directory metadata) of
                                    Inl (err, tk2) \<Rightarrow> Inl (err, self\<lparr>toolkit := tk2\<rparr>)
                                  | Inr tk2 \<Rightarrow>
                                      (let skill_data =
                                             \<lparr>ls_metadata = metadata,
                                              ls_content = skill_content,
                                              ls_additional_resources = additional_resources,
                                              ls_tools = get_skill_tools tk2 skill_name\<rparr>
                                       in Inr (skill_data,
                                               self\<lparr>toolkit := tk2,
                                                    loaded_skills :=
                                                      od_set skill_name skill_data
                                                        (loaded_skills self)\<rparr>))))))))"

subsection \<open>Activation and deactivation\<close>

definition activate_skill ::
  "env \<Rightarrow> manager \<Rightarrow> string \<Rightarrow> (py_exc \<times> manager) + (bool \<times> manager)" where
  "activate_skill e self skill_name =
     (if discovered self skill_name = None then Inr (False, self)
      else
        (case (if \<not> od_contains skill_name (loaded_skills self)
               then (case load_skill e self skill_name of
                       Inl err \<Rightarrow> Inl err
                     | Inr (skill_data, self') \<Rightarrow> Inr self')
               else Inr self) of
           Inl err \<Rightarrow> Inl err
         | Inr self' \<Rightarrow>
             Inr (True,
                  self'\<lparr>toolkit := update_tool_groups (toolkit self') [skill_name] True\<rparr>)))"

definition deactivate_skill :: "manager \<Rightarrow> string \<Rightarrow> bool \<times> manager" where
  "deactivate_skill self skill_name =
     (if discovered self skill_name = None then (False, self)
      else (True, self\<lparr>toolkit := update_tool_groups (toolkit self) [skill_name] False\<rparr>))"

section \<open>The agent: context cache and task matching\<close>

text \<open>
  The cache is an \<^verbatim>\<open>OrderedDict\<close> from the skill name to the pair of the content and the
  time of insertion; its first entry is the oldest.
\<close>

type_synonym cache = "(string \<times> string \<times> rat) list"

record agent =
  skill_manager :: manager
  skill_matching_threshold :: rat
  active_skills :: "string list"
  max_cache_size :: nat
  skill_context_cache :: cache

definition new_agent :: "string \<Rightarrow> rat \<Rightarrow> agent" where
  "new_agent skill_dir threshold =
     \<lparr>skill_manager = new_manager skill_dir, skill_matching_threshold = threshold,
      active_skills = [], max_cache_size = 50, skill_context_cache = []\<rparr>"

text \<open>The \<^verbatim>\<open>while\<close> loop of \<^verbatim>\<open>_add_to_cache\<close>.\<close>

function evict_oldest :: "nat \<Rightarrow> cache \<Rightarrow> cache" where
  "evict_oldest m [] = []"
| "evict_oldest m ((oldest_key, v) # d) =
     (if length ((oldest_key, v) # d) > m
      then evict_oldest m (od_del oldest_key ((oldest_key, v) # d))
      else (oldest_key, v) # d)"
  by pat_completeness auto
termination
  by (relation "measure (\<lambda>(m, c). length c)") (auto simp: od_del_def le_imp_less_Suc)

definition add_to_cache :: "agent \<Rightarrow> string \<Rightarrow> string \<Rightarrow> rat \<Rightarrow> agent" where
  "add_to_cache self skill_name text now =
     (let c0 = skill_context_cache self;
          c1 = (if od_contains skill_name c0 then od_del skill_name c0 else c0);
          c2 = od_set skill_name (text, now) c1
      in self\<lparr>skill_context_cache := evict_oldest (max_cache_size self) c2\<rparr>)"

definition get_from_cache :: "agent \<Rightarrow> string \<Rightarrow> string option \<times> agent" where
  "get_from_cache self skill_name =
     (case map_of (skill_context_cache self) skill_name of
        Some (text, timestamp) \<Rightarrow>
          (Some text,
           self\<lparr>skill_context_cache :=
                  od_set skill_name (text, timestamp)
                    (od_del skill_name (skill_context_cache self))\<rparr>)
      | None \<Rightarrow> (None, self))"

definition cache_keys :: "agent \<Rightarrow> string list" where
  "cache_keys self = map fst (skill_context_cache self)"

text \<open>A sequence of calls of \<^verbatim>\<open>_add_to_cache\<close>.\<close>

fun add_all :: "agent \<Rightarrow> (string \<times> string \<times> rat) list \<Rightarrow> agent" where
  "add_all self [] = self"
| "add_all self ((k, text, now) # rest) = add_all (add_to_cache self k text now) rest"











section \<open>Concrete inputs\<close>

definition names51 :: "string list" where
  "names51 = map (\<lambda>i. ''skill-'' @ replicate i CHR ''x'') [0..<51]"

definition puts51 :: "(string \<times> string \<times> rat) list" where
  "puts51 = map (\<lambda>n. (n, ''content of '' @ n, 0)) names51"

definition small_agent :: agent where
  "small_agent =
     (new_agent ''./skills'' (7 / 10))
       \<lparr>max_cache_size := 2,
        skill_context_cache := [(''a'', ''alpha'', 1), (''b'', ''beta'', 2)]\<rparr>"

definition pdf_metadata :: skill_metadata where
  "pdf_metadata =
     \<lparr>name = YStr ''pdf-tools'', description = YStr ''extract text from pdf documents'',
      directory = ''./skills/pdf-tools'', skill_file_path = ''./skills/pdf-tools/SKILL.md'',
      dependencies = YList [], version = YStr ''1.0.0'', author = YStr []\<rparr>"

definition pdf_manager :: manager where
  "pdf_manager = (new_manager ''./skills'')\<lparr>discovered_skills := [(YStr ''pdf-tools'', pdf_metadata)]\<rparr>"

text \<open>A world in which no path exists.\<close>

definition no_file :: py_exc where
  "no_file = PyExc OSError ''No such file or directory''"

definition empty_env :: env where
  "empty_env =
     \<lparr>path_exists = (\<lambda>p. False), path_is_dir = (\<lambda>p. False),
      iterdir = (\<lambda>p. Inl no_file), read_text = (\<lambda>p. Inl no_file),
      safe_load = (\<lambda>s. Inr YNull),
      glob_py = (\<lambda>p. []), glob_scripts_py = (\<lambda>p. []),
      exec_module = (\<lambda>n p. Inl no_file),
      findall_links = (\<lambda>s. []), findall_includes = (\<lambda>s. [])\<rparr>"







text \<open>Modules and toolkits for the registration strategies.\<close>

definition report_tool :: py_attr where
  "report_tool =
     \<lparr>is_callable = True, skill_tool = None, skill_tool_description = None,
      doc = Some ''Tool: summarise a report.'', annotations = Some []\<rparr>"

definition report_module :: py_module where
  "report_module = [(''summarise'', report_tool)]"

definition reports_toolkit :: toolkit where
  "reports_toolkit =
     \<lparr>groups = [(''reports'', \<lparr>group_active = False, group_description = YStr ''report helpers''\<rparr>)],
      tools = []\<rparr>"

definition invoice_tool :: py_attr where
  "invoice_tool =
     \<lparr>is_callable = True, skill_tool = None, skill_tool_description = None,
      doc = Some ''Sum the lines of an invoice.'', annotations = Some []\<rparr>"

definition getter_tool :: py_attr where
  "getter_tool =
     \<lparr>is_callable = True, skill_tool = None, skill_tool_description = None,
      doc = Some ''Read a field.'', annotations = Some []\<rparr>"

definition billing_module :: py_module where
  "billing_module = [(''extract_invoice_total'', invoice_tool), (''getter'', getter_tool)]"

definition billing_toolkit :: toolkit where
  "billing_toolkit =
     \<lparr>groups = [(''billing'', \<lparr>group_active = False, group_description = YStr ''invoices''\<rparr>)],
      tools = []\<rparr>"

text \<open>A manifest, and a YAML loader that reads its front matter and that of a variant.\<close>

definition pdf_front :: string where
  "pdf_front = ''\<newline>name: pdf-tools\<newline>description: extract text from pdf documents\<newline>''"

definition pdf_rest :: string where
  "pdf_rest = ''\<newline>\<newline># PDF tools\<newline>Use them.\<newline>''"

definition pdf_manifest :: string where
  "pdf_manifest = ''---'' @ pdf_front @ ''---'' @ pdf_rest"

definition nameless_front :: string where
  "nameless_front = ''\<newline>description: extract text from pdf documents\<newline>''"

definition nameless_manifest :: string where
  "nameless_manifest = ''---'' @ nameless_front @ ''---'' @ pdf_rest"

definition pdf_frontmatter :: "(yaml \<times> yaml) list" where
  "pdf_frontmatter =
     [(YStr ''name'', YStr ''pdf-tools''),
      (YStr ''description'', YStr ''extract text from pdf documents'')]"

definition nameless_frontmatter :: "(yaml \<times> yaml) list" where
  "nameless_frontmatter = [(YStr ''description'', YStr ''extract text from pdf documents'')]"

definition pdf_loader :: "string \<Rightarrow> py_exc + yaml" where
  "pdf_loader s =
     (if s = py_strip pdf_front then Inr (YMap pdf_frontmatter)
      else if s = py_strip nameless_front then Inr (YMap nameless_frontmatter)
      else Inl (PyExc YAMLError ''could not find expected key''))"











text \<open>
  A manifest with nothing between its two markers, and a loader that, like
  \<^verbatim>\<open>yaml.safe_load\<close>, builds \<^verbatim>\<open>None\<close> from the empty document.
\<close>

definition empty_front_manifest :: string where
  "empty_front_manifest = ''---\<newline>---\<newline># Notes\<newline>''"

definition empty_document_loader :: "string \<Rightarrow> py_exc + yaml" where
  "empty_document_loader s =
     (if s = [] then Inr YNull else Inl (PyExc YAMLError ''could not find expected key''))"

section \<open>The context cache\<close>

lemma evict_oldest_bound: "length (evict_oldest m c) \<le> m"
  by (induction m c rule: evict_oldest.induct) auto

lemma od_del_fresh: "k \<notin> set (map fst d) \<Longrightarrow> od_del k d = d"
  by (induction d) (auto simp: od_del_def)

lemma od_del_hd: "k \<notin> set (map fst d) \<Longrightarrow> od_del k ((k, v) # d) = d"
  using od_del_fresh [of k d] by (simp add: od_del_def)

lemma evict_oldest_drop:
  "distinct (map fst c) \<Longrightarrow> evict_oldest m c = drop (length c - m) c"
proof (induction m c rule: evict_oldest.induct)
  case (1 m)
  show ?case by simp
next
  case (2 m k v d)
  have fresh: "k \<notin> set (map fst d)" and dd: "distinct (map fst d)"
    using "2.prems" by auto
  show ?case
  proof (cases "length ((k, v) # d) > m")
    case True
    have "evict_oldest m ((k, v) # d) = evict_oldest m d"
      using True od_del_hd [OF fresh] by simp
    also have "\<dots> = drop (length d - m) d"
      using "2.IH" [OF True] od_del_hd [OF fresh, of v] dd by simp
    also have "\<dots> = drop (length ((k, v) # d) - m) ((k, v) # d)"
      using True by (simp add: Suc_diff_le)
    finally show ?thesis .
  next
    case False
    then show ?thesis by simp
  qed
qed

lemma drop_append_le: "j \<le> length A \<Longrightarrow> drop j A @ B = drop j (A @ B)"
  by simp

lemma od_set_fresh: "k \<notin> set (map fst d) \<Longrightarrow> od_set k v d = d @ [(k, v)]"
  by (simp add: od_set_def od_contains_def)

lemma od_del_absent: "k \<notin> set (map fst (od_del k d))"
  by (auto simp: od_del_def)

lemma od_del_keys: "map fst (od_del k d) = removeAll k (map fst d)"
  by (induction d) (auto simp: od_del_def)

lemma od_del_distinct: "distinct (map fst d) \<Longrightarrow> distinct (map fst (od_del k d))"
  by (simp add: od_del_keys distinct_removeAll)

text \<open>Keys of the cache after one put, for a cache whose keys are distinct.\<close>

lemma add_to_cache_keys:
  assumes "distinct (cache_keys self)"
  shows "cache_keys (add_to_cache self k ctext now) =
         (let ks = removeAll k (cache_keys self) @ [k]
          in drop (length ks - max_cache_size self) ks)"
proof -
  let ?c1 = "od_del k (skill_context_cache self)"
  have c1: "(if od_contains k (skill_context_cache self) then ?c1 else skill_context_cache self) = ?c1"
    by (simp add: od_contains_def od_del_fresh)
  have c2: "od_set k (ctext, now) ?c1 = ?c1 @ [(k, ctext, now)]"
    by (rule od_set_fresh) (rule od_del_absent)
  have d2: "distinct (map fst (?c1 @ [(k, ctext, now)]))"
    using assms od_del_distinct [of "skill_context_cache self" k] od_del_absent [of k "skill_context_cache self"]
    by (simp add: cache_keys_def)
  have "cache_keys (add_to_cache self k ctext now)
          = map fst (evict_oldest (max_cache_size self) (?c1 @ [(k, ctext, now)]))"
    unfolding add_to_cache_def Let_def c1 c2 by (simp add: cache_keys_def)
  also have "\<dots> = drop (length (?c1 @ [(k, ctext, now)]) - max_cache_size self)
                       (map fst (?c1 @ [(k, ctext, now)]))"
    unfolding evict_oldest_drop [OF d2] by (rule drop_map [symmetric])
  also have "map fst (?c1 @ [(k, ctext, now)]) = removeAll k (cache_keys self) @ [k]"
    by (simp add: od_del_keys cache_keys_def)
  also have "length (?c1 @ [(k, ctext, now)]) = length (removeAll k (cache_keys self) @ [k])"
    using arg_cong [OF od_del_keys [of k "skill_context_cache self"], of length]
    by (simp add: cache_keys_def)
  finally show ?thesis by (simp add: Let_def del: drop_append)
qed

lemma add_to_cache_distinct:
  assumes "distinct (cache_keys self)"
  shows "distinct (cache_keys (add_to_cache self k ctext now))"
  using assms by (simp add: add_to_cache_keys [OF assms] Let_def distinct_removeAll del: drop_append)

lemma add_to_cache_frame:
  "max_cache_size (add_to_cache self k ctext now) = max_cache_size self"
  by (simp add: add_to_cache_def Let_def)

lemma add_all_fresh_keys:
  "distinct (cache_keys self) \<Longrightarrow> distinct (map fst puts) \<Longrightarrow>
   set (map fst puts) \<inter> set (cache_keys self) = {} \<Longrightarrow>
   length (cache_keys self) \<le> max_cache_size self \<Longrightarrow>
   cache_keys (add_all self puts) =
     drop (length (cache_keys self) + length puts - max_cache_size self)
       (cache_keys self @ map fst puts)"
proof (induction puts arbitrary: self)
  case Nil
  then show ?case by simp
next
  case (Cons p puts)
  obtain k ctext now where p: "p = (k, ctext, now)" by (cases p) auto
  let ?s = "add_to_cache self k ctext now"
  let ?m = "max_cache_size self"
  have kfresh: "k \<notin> set (cache_keys self)" using Cons.prems p by auto
  let ?j = "Suc (length (cache_keys self)) - ?m"
  have keys1: "cache_keys ?s = drop ?j (cache_keys self @ [k])"
    using add_to_cache_keys [OF Cons.prems(1), of k ctext now] kfresh
    by (simp add: Let_def del: drop_append)
  have d1: "distinct (cache_keys ?s)" by (rule add_to_cache_distinct [OF Cons.prems(1)])
  have d2: "distinct (map fst puts)" using Cons.prems(2) by simp
  have "set (cache_keys ?s) \<subseteq> insert k (set (cache_keys self))"
    unfolding keys1 using set_drop_subset [of ?j "cache_keys self @ [k]"] by auto
  then have d3: "set (map fst puts) \<inter> set (cache_keys ?s) = {}"
    using Cons.prems(2,3) p by auto
  have len1: "length (cache_keys ?s) = Suc (length (cache_keys self)) - ?j"
    unfolding keys1 by simp
  have d4: "length (cache_keys ?s) \<le> max_cache_size ?s"
    using len1 Cons.prems(4) by (simp add: add_to_cache_frame)
  have "drop ?j (cache_keys self @ [k]) @ map fst puts
          = drop ?j ((cache_keys self @ [k]) @ map fst puts)"
    by (rule drop_append_le) simp
  also have "(cache_keys self @ [k]) @ map fst puts = cache_keys self @ k # map fst puts"
    by simp
  finally have app: "cache_keys ?s @ map fst puts = drop ?j (cache_keys self @ k # map fst puts)"
    unfolding keys1 .
  have "cache_keys (add_all self (p # puts)) = cache_keys (add_all ?s puts)" by (simp add: p)
  also have "\<dots> = drop (length (cache_keys ?s) + length puts - ?m) (cache_keys ?s @ map fst puts)"
    using Cons.IH [OF d1 d2 d3 d4] by (simp add: add_to_cache_frame)
  also have "\<dots> = drop (length (cache_keys ?s) + length puts - ?m + ?j)
                       (cache_keys self @ k # map fst puts)"
    unfolding app by (simp only: drop_drop)
  also have "length (cache_keys ?s) + length puts - ?m + ?j
             = length (cache_keys self) + length (p # puts) - ?m"
    using Cons.prems(4) len1 by auto
  also have "cache_keys self @ k # map fst puts = cache_keys self @ map fst (p # puts)"
    by (simp add: p)
  finally show ?case .
qed


lemma get_from_cache_hit:
  assumes "k \<in> set (cache_keys self)"
  shows "\<exists>ctext ts. map_of (skill_context_cache self) k = Some (ctext, ts) \<and>
           fst (get_from_cache self k) = Some ctext \<and>
           cache_keys (snd (get_from_cache self k)) = removeAll k (cache_keys self) @ [k] \<and>
           max_cache_size (snd (get_from_cache self k)) = max_cache_size self"
proof -
  from assms obtain v where "map_of (skill_context_cache self) k = Some v"
    by (metis cache_keys_def map_of_eq_None_iff not_Some_eq set_map)
  then obtain ctext ts where hit: "map_of (skill_context_cache self) k = Some (ctext, ts)"
    by (cases v) auto
  have "od_set k (ctext, ts) (od_del k (skill_context_cache self))
        = od_del k (skill_context_cache self) @ [(k, ctext, ts)]"
    by (rule od_set_fresh) (rule od_del_absent)
  with hit show ?thesis
    by (simp add: get_from_cache_def cache_keys_def od_del_keys)
qed

lemma get_from_cache_miss:
  "k \<notin> set (cache_keys self) \<Longrightarrow> get_from_cache self k = (None, self)"
  by (simp add: get_from_cache_def cache_keys_def map_of_eq_None_iff [THEN iffD2])

text \<open>
  Claim C3. After a call of \<^verbatim>\<open>_add_to_cache\<close> the cache holds at most
  \<open>max_cache_size\<close> entries, whatever the cache was before. Putting 51 distinct names into
  the empty cache of size 50 leaves 50 entries: all but the first name, in the order of
  insertion. A read of a cached name returns its content and moves the name to the last
  position; when new names are put afterwards, the cache drops entries from the front of
  the list that has the untouched names first, then the name read, then the new names,
  so the name read is dropped only after every untouched name is gone.
\<close>

theorem cache_bound_and_recency:
  "length (skill_context_cache (add_to_cache self k ctext now)) \<le> max_cache_size self \<and>
   (max_cache_size self = 50 \<and> skill_context_cache self = [] \<and>
    distinct (map fst puts) \<and> length puts = 51 \<longrightarrow>
      length (skill_context_cache (add_all self puts)) = 50 \<and>
      cache_keys (add_all self puts) = tl (map fst puts) \<and>
      hd (map fst puts) \<notin> set (cache_keys (add_all self puts))) \<and>
   (distinct (cache_keys self) \<and> length (cache_keys self) \<le> max_cache_size self \<and>
    r \<in> set (cache_keys self) \<and> distinct (map fst news) \<and>
    set (map fst news) \<inter> set (cache_keys self) = {} \<longrightarrow>
      (let self' = snd (get_from_cache self r);
           final = cache_keys (add_all self' news)
       in fst (get_from_cache self r) = map_option fst (map_of (skill_context_cache self) r) \<and>
          fst (get_from_cache self r) \<noteq> None \<and>
          cache_keys self' = removeAll r (cache_keys self) @ [r] \<and>
          final = drop (length (cache_keys self) + length news - max_cache_size self)
                    (removeAll r (cache_keys self) @ [r] @ map fst news) \<and>
          (r \<notin> set final \<longrightarrow> set (cache_keys self) \<inter> set final = {})))"
proof (intro conjI impI)
  show "length (skill_context_cache (add_to_cache self k ctext now)) \<le> max_cache_size self"
    by (simp add: add_to_cache_def Let_def evict_oldest_bound)
next
  assume a: "max_cache_size self = 50 \<and> skill_context_cache self = [] \<and>
             distinct (map fst puts) \<and> length puts = 51"
  then have keys: "cache_keys (add_all self puts) = drop 1 (map fst puts)"
    using add_all_fresh_keys [of self puts] by (simp add: cache_keys_def)
  then show k2: "cache_keys (add_all self puts) = tl (map fst puts)"
    by (simp add: drop_Suc)
  show "length (skill_context_cache (add_all self puts)) = 50"
    using arg_cong [OF keys, of length] a by (simp add: cache_keys_def)
  from a obtain p ps where "puts = p # ps" by (cases puts) auto
  with a show "hd (map fst puts) \<notin> set (cache_keys (add_all self puts))"
    unfolding k2 by auto
next
  assume a: "distinct (cache_keys self) \<and> length (cache_keys self) \<le> max_cache_size self \<and>
    r \<in> set (cache_keys self) \<and> distinct (map fst news) \<and>
    set (map fst news) \<inter> set (cache_keys self) = {}"
  let ?self' = "snd (get_from_cache self r)"
  let ?ks = "removeAll r (cache_keys self)"
  let ?n = "length (cache_keys self) + length news - max_cache_size self"
  from a get_from_cache_hit [of r self] obtain c ts where
    hit: "map_of (skill_context_cache self) r = Some (c, ts)"
    and res: "fst (get_from_cache self r) = Some c"
    and keys': "cache_keys ?self' = ?ks @ [r]"
    and max': "max_cache_size ?self' = max_cache_size self"
    by blast
  have len: "length (?ks @ [r]) = length (cache_keys self)"
    using a by (simp add: distinct_remove1_removeAll [symmetric] length_remove1)
       (metis One_nat_def Suc_pred length_pos_if_in_set)
  have d1: "distinct (cache_keys ?self')" using a keys' by (simp add: distinct_removeAll)
  have d3: "set (map fst news) \<inter> set (cache_keys ?self') = {}" using a keys' by auto
  have d4: "length (cache_keys ?self') \<le> max_cache_size ?self'"
    using a len keys' max' by simp
  have "cache_keys (add_all ?self' news)
        = drop (length (cache_keys ?self') + length news - max_cache_size ?self')
            (cache_keys ?self' @ map fst news)"
    using add_all_fresh_keys [OF d1 _ d3 d4] a by blast
  then have final: "cache_keys (add_all ?self' news) = drop ?n (?ks @ [r] @ map fst news)"
    by (simp only: keys' max' len append_assoc)
  have protect: "r \<notin> set (drop ?n (?ks @ [r] @ map fst news)) \<Longrightarrow>
                 set (cache_keys self) \<inter> set (drop ?n (?ks @ [r] @ map fst news)) = {}"
  proof -
    assume nr: "r \<notin> set (drop ?n (?ks @ [r] @ map fst news))"
    have "length ?ks < ?n"
    proof (rule ccontr)
      assume "\<not> length ?ks < ?n"
      then have "drop ?n (?ks @ [r] @ map fst news) = drop ?n ?ks @ [r] @ map fst news"
        by simp
      with nr show False by simp
    qed
    then have "drop ?n (?ks @ [r] @ map fst news) = drop (?n - Suc (length ?ks)) (map fst news)"
      by (simp add: Suc_diff_Suc [symmetric] del: Suc_diff_Suc)
    then have "set (drop ?n (?ks @ [r] @ map fst news)) \<subseteq> set (map fst news)"
      using set_drop_subset by metis
    with a show ?thesis by auto
  qed
  show "let self' = snd (get_from_cache self r);
           final = cache_keys (add_all self' news)
       in fst (get_from_cache self r) = map_option fst (map_of (skill_context_cache self) r) \<and>
          fst (get_from_cache self r) \<noteq> None \<and>
          cache_keys self' = removeAll r (cache_keys self) @ [r] \<and>
          final = drop (length (cache_keys self) + length news - max_cache_size self)
                    (removeAll r (cache_keys self) @ [r] @ map fst news) \<and>
          (r \<notin> set final \<longrightarrow> set (cache_keys self) \<inter> set final = {})"
    unfolding Let_def final using hit res keys' protect by simp
qed


theorem cache_bound_and_recency_witness:
  "length (skill_context_cache (add_to_cache small_agent ''c'' ''gamma'' 3)) \<le> 2 \<and>
   length (skill_context_cache (add_all (new_agent ''./skills'' (7 / 10)) puts51)) = 50 \<and>
   cache_keys (add_all (new_agent ''./skills'' (7 / 10)) puts51) = tl names51 \<and>
   ''skill-'' \<notin> set (cache_keys (add_all (new_agent ''./skills'' (7 / 10)) puts51)) \<and>
   fst (get_from_cache small_agent ''a'') = Some ''alpha'' \<and>
   cache_keys (snd (get_from_cache small_agent ''a'')) = [''b'', ''a''] \<and>
   cache_keys (add_all (snd (get_from_cache small_agent ''a'')) [(''c'', ''gamma'', 3)])
     = [''a'', ''c'']"
proof -
  have h2: "max_cache_size (new_agent ''./skills'' (7 / 10)) = 50 \<and>
            skill_context_cache (new_agent ''./skills'' (7 / 10)) = [] \<and>
            distinct (map fst puts51) \<and> length puts51 = 51"
    by code_simp
  have h3: "distinct (cache_keys small_agent) \<and>
            length (cache_keys small_agent) \<le> max_cache_size small_agent \<and>
            ''a'' \<in> set (cache_keys small_agent) \<and>
            distinct (map fst [(''c'', ''gamma'', 3 :: rat)]) \<and>
            set (map fst [(''c'', ''gamma'', 3 :: rat)]) \<inter> set (cache_keys small_agent) = {}"
    by code_simp
  have e1: "max_cache_size small_agent = 2" by code_simp
  have e2: "map fst puts51 = names51" by code_simp
  have e3: "hd names51 = ''skill-''" by code_simp
  have e4: "map_option fst (map_of (skill_context_cache small_agent) ''a'') = Some ''alpha''"
    by code_simp
  have e5: "removeAll ''a'' (cache_keys small_agent) @ [''a''] = [''b'', ''a'']" by code_simp
  have e6: "drop (length (cache_keys small_agent) + length [(''c'', ''gamma'', 3 :: rat)]
                  - max_cache_size small_agent)
              (removeAll ''a'' (cache_keys small_agent) @ [''a'']
                 @ map fst [(''c'', ''gamma'', 3 :: rat)]) = [''a'', ''c'']"
    by code_simp
  note t2 = cache_bound_and_recency
      [of "new_agent ''./skills'' (7 / 10)" "''c''" "''gamma''" 3 puts51 "''a''" "[]"]
  note t3 = cache_bound_and_recency
      [of small_agent "''c''" "''gamma''" 3 "[]" "''a''" "[(''c'', ''gamma'', 3)]",
       unfolded Let_def]
  from t2 h2 have c2:
    "length (skill_context_cache (add_all (new_agent ''./skills'' (7 / 10)) puts51)) = 50 \<and>
     cache_keys (add_all (new_agent ''./skills'' (7 / 10)) puts51) = tl (map fst puts51) \<and>
     hd (map fst puts51) \<notin> set (cache_keys (add_all (new_agent ''./skills'' (7 / 10)) puts51))"
    by blast
  from t3 have c1:
    "length (skill_context_cache (add_to_cache small_agent ''c'' ''gamma'' 3))
       \<le> max_cache_size small_agent"
    by blast
  from t3 h3 have c3:
    "fst (get_from_cache small_agent ''a'')
       = map_option fst (map_of (skill_context_cache small_agent) ''a'') \<and>
     cache_keys (snd (get_from_cache small_agent ''a''))
       = removeAll ''a'' (cache_keys small_agent) @ [''a''] \<and>
     cache_keys (add_all (snd (get_from_cache small_agent ''a'')) [(''c'', ''gamma'', 3)])
       = drop (length (cache_keys small_agent) + length [(''c'', ''gamma'', 3 :: rat)]
                  - max_cache_size small_agent)
              (removeAll ''a'' (cache_keys small_agent) @ [''a'']
                 @ map fst [(''c'', ''gamma'', 3 :: rat)])"
    by blast
  show ?thesis
    using c1 [unfolded e1] c2 [unfolded e2 e3] c3 [unfolded e6 e5 e4] by blast
qed


section \<open>Discovery and deactivation\<close>

text \<open>
  Claim C10. When the skill directory does not exist, \<^verbatim>\<open>discover_skills\<close> returns the
  empty dictionary, raises nothing and leaves the manager, and with it the index of
  discovered skills, as it was.
\<close>

theorem discover_missing_directory:
  "\<not> path_exists e (skill_directory self) \<Longrightarrow> discover_skills e self = Inr ([], self)"
  by (simp add: discover_skills_def)

theorem discover_missing_directory_witness:
  "\<not> path_exists empty_env (skill_directory pdf_manager) \<and>
   discovered_skills pdf_manager = [(YStr ''pdf-tools'', pdf_metadata)] \<and>
   discover_skills empty_env pdf_manager = Inr ([], pdf_manager)"
proof -
  have h: "\<not> path_exists empty_env (skill_directory pdf_manager)"
    by (simp add: empty_env_def)
  have i: "discovered_skills pdf_manager = [(YStr ''pdf-tools'', pdf_metadata)]"
    by (simp add: pdf_manager_def)
  from h i discover_missing_directory [OF h] show ?thesis by simp
qed

text \<open>
  Claim C9. \<^verbatim>\<open>deactivate_skill\<close> returns true exactly when the name is a key of the
  index of discovered skills; whether the skill was ever loaded plays no part. The
  index and the loaded skills stay as they were.
\<close>

theorem deactivate_only_checks_discovery:
  "fst (deactivate_skill self skill_name)
     = (YStr skill_name \<in> set (map fst (discovered_skills self))) \<and>
   discovered_skills (snd (deactivate_skill self skill_name)) = discovered_skills self \<and>
   loaded_skills (snd (deactivate_skill self skill_name)) = loaded_skills self"
proof -
  have "(discovered self skill_name = None)
          = (YStr skill_name \<notin> set (map fst (discovered_skills self)))"
    by (simp add: discovered_def map_of_eq_None_iff)
  then show ?thesis by (simp add: deactivate_skill_def)
qed

theorem deactivate_only_checks_discovery_witness:
  "loaded_skills pdf_manager = [] \<and>
   fst (deactivate_skill pdf_manager ''pdf-tools'') = True \<and>
   fst (deactivate_skill pdf_manager ''unknown'') = False"
proof -
  have l: "loaded_skills pdf_manager = []"
    by (simp add: pdf_manager_def new_manager_def)
  have k: "YStr ''pdf-tools'' \<in> set (map fst (discovered_skills pdf_manager))"
    by (simp add: pdf_manager_def)
  have u: "YStr ''unknown'' \<notin> set (map fst (discovered_skills pdf_manager))"
    by (simp add: pdf_manager_def)
  from l k u deactivate_only_checks_discovery [of pdf_manager "''pdf-tools''"]
    deactivate_only_checks_discovery [of pdf_manager "''unknown''"]
  show ?thesis by simp
qed

section \<open>Tools\<close>

subsection \<open>The wrapper\<close>




subsection \<open>The docstring strategy\<close>


text \<open>
  Claim C1 on the code. The module has one callable, \<^verbatim>\<open>summarise\<close>: it carries no tool
  marker, no tool of that name is registered, and its docstring contains the indicator
  \<^verbatim>\<open>tool:\<close>. The docstring strategy registers nothing and leaves the toolkit as it
  was, and so does the whole chain of the four strategies.
\<close>

theorem docstring_strategy_registers_nothing:
  "is_callable report_tool \<and> skill_tool report_tool = None \<and>
   \<not> od_contains ''summarise'' (tools reports_toolkit) \<and>
   is_tool_docstring (doc report_tool) \<and>
   register_by_docstring_analysis report_module ''reports'' reports_toolkit
     = Inr (0, reports_toolkit) \<and>
   register_module report_module ''reports'' reports_toolkit = Inr (0, reports_toolkit)"
  by code_simp

subsection \<open>The naming strategy\<close>

lemma register_tool_function_new:
  assumes "od_contains skill_name (groups tk) \<or> skill_name = ''basic''"
    and "\<not> od_contains n (tools tk)"
  shows "register_tool_function tk n d skill_name
         = Inr (tk\<lparr>tools := tools tk @ [(n, \<lparr>tool_group_name = skill_name, tool_doc = d\<rparr>)]\<rparr>)"
  using assms by (auto simp: register_tool_function_def)

lemma naming_candidates_Cons:
  "naming_candidates (na # mdl) tk =
     (if is_callable (snd na) \<and> skill_tool (snd na) = None \<and> matches_tool_pattern (fst na)
         \<and> \<not> od_contains (fst na) (tools tk)
      then na # naming_candidates mdl tk else naming_candidates mdl tk)"
  by (simp add: naming_candidates_def)

lemma naming_candidates_fresh_tool:
  assumes "n \<notin> set (map fst mdl)"
  shows "naming_candidates mdl (tk\<lparr>tools := tools tk @ [(n, t)]\<rparr>) = naming_candidates mdl tk"
proof -
  have "\<And>na. na \<in> set mdl \<Longrightarrow>
          od_contains (fst na) (tools tk @ [(n, t)]) = od_contains (fst na) (tools tk)"
    using assms by (auto simp: od_contains_def)
  then show ?thesis
    unfolding naming_candidates_def by (intro filter_cong) auto
qed

lemma register_naming_loop_result:
  assumes "distinct (map fst mdl)"
    and "od_contains skill_name (groups tk) \<or> skill_name = ''basic''"
  shows "register_naming_loop mdl skill_name c tk
         = Inr (c + length (naming_candidates mdl tk),
                tk\<lparr>tools := tools tk
                       @ map (registered_as skill_name) (naming_candidates mdl tk)\<rparr>)"
  using assms
proof (induction mdl arbitrary: c tk)
  case Nil
  show ?case by (simp add: naming_candidates_def)
next
  case (Cons na mdl)
  obtain n a where na: "na = (n, a)" by (cases na)
  have fresh: "n \<notin> set (map fst mdl)" and dist: "distinct (map fst mdl)"
    using Cons.prems(1) na by auto
  show ?case
  proof (cases "is_callable a \<and> skill_tool a = None \<and> matches_tool_pattern n
                \<and> \<not> od_contains n (tools tk)")
    case True
    let ?t = "\<lparr>tool_group_name = skill_name, tool_doc = doc a\<rparr>"
    let ?tk1 = "tk\<lparr>tools := tools tk @ [(n, ?t)]\<rparr>"
    have reg: "register_tool_function tk n (doc a) skill_name = Inr ?tk1"
      using register_tool_function_new [OF Cons.prems(2)] True by blast
    have grp: "od_contains skill_name (groups ?tk1) \<or> skill_name = ''basic''"
      using Cons.prems(2) by simp
    have ih: "register_naming_loop mdl skill_name (c + 1) ?tk1
              = Inr (c + 1 + length (naming_candidates mdl ?tk1),
                     ?tk1\<lparr>tools := tools ?tk1
                              @ map (registered_as skill_name) (naming_candidates mdl ?tk1)\<rparr>)"
      by (rule Cons.IH [OF dist grp])
    have cands: "naming_candidates mdl ?tk1 = naming_candidates mdl tk"
      by (rule naming_candidates_fresh_tool [OF fresh])
    have step: "register_naming_loop (na # mdl) skill_name c tk
                = register_naming_loop mdl skill_name (c + 1) ?tk1"
      using True reg by (simp add: na)
    show ?thesis
      unfolding step ih cands
      using True by (simp add: naming_candidates_Cons na registered_as_def)
  next
    case False
    have step: "register_naming_loop (na # mdl) skill_name c tk
                = register_naming_loop mdl skill_name c tk"
      using False by (auto simp: na)
    show ?thesis
      unfolding step Cons.IH [OF dist Cons.prems(2)]
      using False by (auto simp: naming_candidates_Cons na)
  qed
qed

text \<open>
  Claim C2, amended. The module lists each name once, as \<^verbatim>\<open>dir\<close> does, and the group of
  the skill exists. Then the naming strategy registers exactly the callables that have
  no attribute \<^verbatim>\<open>__skill_tool__\<close>, whose lower-cased name contains one of the twelve
  patterns (a verb followed by an underscore) and whose name is not yet a registered
  tool: in the order of the module, into the group of the skill, each with the
  docstring of the callable itself. It returns their number.
\<close>

theorem naming_convention_registers:
  "distinct (map fst mdl) \<Longrightarrow>
   od_contains skill_name (groups tk) \<or> skill_name = ''basic'' \<Longrightarrow>
   register_by_naming_convention mdl skill_name tk
     = Inr (length (naming_candidates mdl tk),
            tk\<lparr>tools := tools tk @ map (registered_as skill_name) (naming_candidates mdl tk)\<rparr>)"
  using register_naming_loop_result [of mdl skill_name tk 0]
  by (simp add: register_by_naming_convention_def)

theorem naming_convention_registers_witness:
  "distinct (map fst billing_module) \<and>
   od_contains ''billing'' (groups billing_toolkit) \<and>
   naming_candidates billing_module billing_toolkit
     = [(''extract_invoice_total'', invoice_tool)] \<and>
   register_by_naming_convention billing_module ''billing'' billing_toolkit
     = Inr (1, billing_toolkit
                 \<lparr>tools := [(''extract_invoice_total'',
                              \<lparr>tool_group_name = ''billing'',
                               tool_doc = Some ''Sum the lines of an invoice.''\<rparr>)]\<rparr>)"
proof -
  have h1: "distinct (map fst billing_module)" by code_simp
  have h2: "od_contains ''billing'' (groups billing_toolkit)" by code_simp
  have c: "naming_candidates billing_module billing_toolkit
             = [(''extract_invoice_total'', invoice_tool)]"
    by code_simp
  have t: "tools billing_toolkit = []" by (simp add: billing_toolkit_def)
  have d: "doc invoice_tool = Some ''Sum the lines of an invoice.''"
    by (simp add: invoice_tool_def)
  from naming_convention_registers [OF h1 disjI1 [OF h2]]
  have "register_by_naming_convention billing_module ''billing'' billing_toolkit
     = Inr (length (naming_candidates billing_module billing_toolkit),
            billing_toolkit\<lparr>tools := tools billing_toolkit
               @ map (registered_as ''billing'')
                   (naming_candidates billing_module billing_toolkit)\<rparr>)" .
  then show ?thesis
    using h1 h2 c by (simp add: c t d registered_as_def)
qed

text \<open>
  Claim C2 as stated fails on three counts. The callable \<^verbatim>\<open>extract_invoice_total\<close> is
  registered with its own docstring, not with a generated description. The name
  \<^verbatim>\<open>getter\<close> contains the verb \<^verbatim>\<open>get\<close> and is not registered, since the pattern is
  \<^verbatim>\<open>get_\<close>. And \<^verbatim>\<open>_generate_tool_description\<close>, which no strategy calls, keeps the
  underscores of the object phrase.
\<close>

theorem naming_convention_counterexample:
  "register_by_naming_convention billing_module ''billing'' billing_toolkit
     = Inr (1, billing_toolkit
                 \<lparr>tools := [(''extract_invoice_total'',
                              \<lparr>tool_group_name = ''billing'',
                               tool_doc = Some ''Sum the lines of an invoice.''\<rparr>)]\<rparr>) \<and>
   is_callable getter_tool \<and> skill_tool getter_tool = None \<and> py_in ''get'' ''getter'' \<and>
   generate_tool_description ''extract_invoice_total'' = ''Extract invoice_total''"
  by code_simp

section \<open>Manifests\<close>

lemma find_at_first:
  "n \<le> length s \<Longrightarrow> prefix sub (drop n s) \<Longrightarrow> (\<forall>i<n. \<not> prefix sub (drop i s)) \<Longrightarrow>
   find_at sub s k = int (k + n)"
proof (induction s arbitrary: n k)
  case Nil
  then show ?case by simp
next
  case (Cons c cs)
  show ?case
  proof (cases n)
    case 0
    with Cons.prems show ?thesis by simp
  next
    case (Suc m)
    have nohead: "\<not> prefix sub (c # cs)" using Cons.prems(3) Suc by force
    have "\<forall>i<m. \<not> prefix sub (drop i cs)"
    proof (intro allI impI)
      fix i assume "i < m"
      then have "Suc i < n" using Suc by simp
      with Cons.prems(3) have "\<not> prefix sub (drop (Suc i) (c # cs))" by blast
      then show "\<not> prefix sub (drop i cs)" by simp
    qed
    with Cons.IH [of m "Suc k"] Cons.prems Suc nohead show ?thesis by simp
  qed
qed

lemma manifest_parts_find:
  assumes "manifest_parts t fm rest"
  shows "prefix ''---'' t" and "py_find t ''---'' 3 = int (3 + length fm)"
proof -
  from assms have t: "t = ''---'' @ fm @ ''---'' @ rest"
    and first: "\<forall>i<length fm. \<not> prefix ''---'' (drop i (fm @ ''---'' @ rest))"
    by (auto simp: manifest_parts_def list_all_iff)
  show "prefix ''---'' t" unfolding t by simp
  have "find_at ''---'' (fm @ ''---'' @ rest) 3 = int (3 + length fm)"
    by (rule find_at_first) (use first in simp_all)
  then show "py_find t ''---'' 3 = int (3 + length fm)"
    unfolding py_find_def t by simp
qed

lemma strip_right:
  "dropWhile py_isspace s
     = py_strip s @ rev (takeWhile py_isspace (rev (dropWhile py_isspace s)))"
proof -
  let ?v = "rev (dropWhile py_isspace s)"
  have "rev ?v = rev (takeWhile py_isspace ?v @ dropWhile py_isspace ?v)"
    by (simp only: takeWhile_dropWhile_id)
  also have "\<dots> = rev (dropWhile py_isspace ?v) @ rev (takeWhile py_isspace ?v)"
    by (rule rev_append)
  finally show ?thesis by (simp only: py_strip_def rev_rev_ident)
qed

lemma drop_three_parts: "drop (length a + length b + length c) (a @ b @ c @ r) = r"
  by simp

lemma py_strip_parts:
  "\<exists>l r. s = l @ py_strip s @ r \<and> list_all py_isspace l \<and> list_all py_isspace r"
proof -
  let ?u = "dropWhile py_isspace s"
  have s: "s = takeWhile py_isspace s @ ?u" by simp
  have u: "?u = py_strip s @ rev (takeWhile py_isspace (rev ?u))"
    by (rule strip_right)
  have l: "list_all py_isspace (takeWhile py_isspace s)"
    by (simp add: list_all_iff) (meson set_takeWhileD)
  have r: "list_all py_isspace (rev (takeWhile py_isspace (rev ?u)))"
    by (simp add: list_all_iff) (meson set_takeWhileD)
  from s u have "s = takeWhile py_isspace s @ py_strip s @ rev (takeWhile py_isspace (rev ?u))"
    by metis
  with l r show ?thesis by blast
qed

lemma py_strip_ends:
  assumes "py_strip s \<noteq> []"
  shows "\<not> py_isspace (hd (py_strip s))" and "\<not> py_isspace (last (py_strip s))"
proof -
  let ?u = "dropWhile py_isspace s"
  let ?w = "dropWhile py_isspace (rev ?u)"
  have w: "?w \<noteq> []" using assms by (simp add: py_strip_def)
  then have "\<not> py_isspace (hd ?w)" by (rule hd_dropWhile)
  then show "\<not> py_isspace (last (py_strip s))"
    using w by (simp add: py_strip_def last_rev)
  have u: "?u \<noteq> []"
  proof
    assume e: "?u = []"
    have "?w = []" unfolding e by simp
    with w show False by contradiction
  qed
  then have hu: "\<not> py_isspace (hd ?u)" by (rule hd_dropWhile)
  have "?u = py_strip s @ rev (takeWhile py_isspace (rev ?u))"
    by (rule strip_right)
  then have "hd ?u = hd (py_strip s)" using assms by (metis hd_append2)
  with hu show "\<not> py_isspace (hd (py_strip s))" by simp
qed

text \<open>
  Claim C8. For a manifest made of a front matter between two markers and a rest, the
  closing marker being the first one after the opening marker, the extracted body is
  the rest without its leading and trailing whitespace: the rest is whitespace, then
  the body, then whitespace, and a body that is not empty neither starts nor ends with
  whitespace. A text that does not begin with the marker is returned unchanged.
\<close>

theorem extract_body_roundtrip:
  "(manifest_parts t fm rest \<longrightarrow>
      extract_body t = py_strip rest \<and>
      (\<exists>l r. rest = l @ extract_body t @ r \<and> list_all py_isspace l \<and> list_all py_isspace r) \<and>
      (extract_body t \<noteq> [] \<longrightarrow>
         \<not> py_isspace (hd (extract_body t)) \<and> \<not> py_isspace (last (extract_body t)))) \<and>
   (\<not> prefix ''---'' t \<longrightarrow> extract_body t = t)"
proof (intro conjI impI)
  assume m: "manifest_parts t fm rest"
  have t: "t = ''---'' @ fm @ ''---'' @ rest" using m by (simp add: manifest_parts_def)
  have "nat (int (3 + length fm) + 3) = length ''---'' + length fm + length ''---''"
    by simp
  then have "py_slice_from t (int (3 + length fm) + 3) = rest"
    unfolding py_slice_from_def t by (simp only: drop_three_parts)
  then show b: "extract_body t = py_strip rest"
    using manifest_parts_find [OF m] by (simp add: extract_body_def Let_def)
  show "\<exists>l r. rest = l @ extract_body t @ r \<and> list_all py_isspace l \<and> list_all py_isspace r"
    unfolding b by (rule py_strip_parts)
  assume "extract_body t \<noteq> []"
  then show "\<not> py_isspace (hd (extract_body t))" and "\<not> py_isspace (last (extract_body t))"
    unfolding b by (rule py_strip_ends)+
next
  assume "\<not> prefix ''---'' t"
  then show "extract_body t = t" by (simp add: extract_body_def)
qed

theorem extract_body_roundtrip_witness:
  "manifest_parts pdf_manifest pdf_front pdf_rest \<and>
   extract_body pdf_manifest = ''# PDF tools\<newline>Use them.'' \<and>
   \<not> prefix ''---'' ''# Notes\<newline>'' \<and> extract_body ''# Notes\<newline>'' = ''# Notes\<newline>''"
proof -
  have h: "manifest_parts pdf_manifest pdf_front pdf_rest" by code_simp
  have s: "py_strip pdf_rest = ''# PDF tools\<newline>Use them.''" by code_simp
  have n: "\<not> prefix ''---'' ''# Notes\<newline>''" by simp
  from extract_body_roundtrip [of pdf_manifest pdf_front pdf_rest] h
  have c1: "extract_body pdf_manifest = py_strip pdf_rest" by blast
  from extract_body_roundtrip [of "''# Notes\<newline>''" pdf_front pdf_rest] n
  have c2: "extract_body ''# Notes\<newline>'' = ''# Notes\<newline>''" by blast
  from h c1 c2 n show ?thesis unfolding s by blast
qed

lemma dict_get_Inr:
  "dict_get v k d = Inr x \<Longrightarrow>
   \<exists>m. v = YMap m \<and> x = (case map_of m (YStr k) of Some y \<Rightarrow> y | None \<Rightarrow> d)"
  by (cases v) auto

lemma parse_frontmatter_Inr:
  assumes "parse_frontmatter load skill_dir skill_file t = Inr md"
  shows "truthy (name md) \<and> truthy (description md) \<and> directory md = skill_dir
         \<and> skill_file_path md = skill_file"
proof -
  from assms obtain fmv n d deps ver auth where
    n: "dict_get fmv ''name'' YNull = Inr n" and
    d: "dict_get fmv ''description'' YNull = Inr d" and
    ok: "truthy n" "truthy d" and
    md: "md = post_init \<lparr>name = n, description = d, directory = skill_dir,
                         skill_file_path = skill_file, dependencies = deps,
                         version = ver, author = auth\<rparr>"
    by (auto simp: parse_frontmatter_def Let_def split: if_splits sum.splits)
  show ?thesis using ok by (simp add: md post_init_def)
qed

lemma parse_manifest_Inr:
  assumes "parse_manifest load skill_dir skill_file t = Inr md"
  shows "parse_frontmatter load skill_dir skill_file t = Inr md"
  using assms
  by (auto simp: parse_manifest_def split: if_splits sum.splits py_exc.splits exc_class.splits)

lemma take_middle_part: "take (length b) (drop (length a) (a @ b @ c)) = b"
  by simp

lemma parse_frontmatter_mapping:
  assumes "manifest_parts t fm rest" and "load (py_strip fm) = Inr (YMap m)"
  shows "parse_frontmatter load skill_dir skill_file t =
     (if field_missing m ''name'' \<or> field_missing m ''description'' then Inl missing_fields
      else Inr \<lparr>name = the (map_of m (YStr ''name'')),
                description = the (map_of m (YStr ''description'')),
                directory = skill_dir, skill_file_path = skill_file,
                dependencies = (case map_of m (YStr ''dependencies'') of
                                  None \<Rightarrow> YList [] | Some YNull \<Rightarrow> YList [] | Some v \<Rightarrow> v),
                version = (case map_of m (YStr ''version'') of
                             None \<Rightarrow> YStr ''1.0.0'' | Some v \<Rightarrow> v),
                author = (case map_of m (YStr ''author'') of
                            None \<Rightarrow> YStr [] | Some v \<Rightarrow> v)\<rparr>)"
proof -
  have t: "t = ''---'' @ fm @ ''---'' @ rest" using assms(1) by (simp add: manifest_parts_def)
  have f: "py_find t ''---'' 3 = int (3 + length fm)"
    by (rule manifest_parts_find(2) [OF assms(1)])
  have a1: "nat (int (3 + length fm)) - length ''---'' = length fm" by simp
  have a2: "nat 3 = length ''---''" by simp
  have "py_slice t 3 (int (3 + length fm)) = take (length fm) (drop (length ''---'') t)"
    by (simp only: py_slice_def a1 a2)
  also have "\<dots> = fm" unfolding t by (rule take_middle_part)
  finally have sl: "py_slice t 3 (int (3 + length fm)) = fm" .
  have ne: "int (3 + length fm) \<noteq> - 1" by simp
  show ?thesis
    unfolding parse_frontmatter_def Let_def f sl
    using ne assms(2)
    by (auto simp: field_missing_def post_init_def split: option.splits yaml.splits)
qed

lemma parse_manifest_not_a_mapping:
  assumes "manifest_parts t fm rest" and "load (py_strip fm) = Inr v" and "\<forall>m. v \<noteq> YMap m"
  shows "parse_manifest load skill_dir skill_file t = Inl (no_attribute v ''get'')"
proof -
  have t: "t = ''---'' @ fm @ ''---'' @ rest" using assms(1) by (simp add: manifest_parts_def)
  have f: "py_find t ''---'' 3 = int (3 + length fm)"
    by (rule manifest_parts_find(2) [OF assms(1)])
  have a1: "nat (int (3 + length fm)) - length ''---'' = length fm" by simp
  have a2: "nat 3 = length ''---''" by simp
  have "py_slice t 3 (int (3 + length fm)) = take (length fm) (drop (length ''---'') t)"
    by (simp only: py_slice_def a2 a1)
  also have "\<dots> = fm" unfolding t by (rule take_middle_part)
  finally have sl: "py_slice t 3 (int (3 + length fm)) = fm" .
  have ne: "int (3 + length fm) \<noteq> - 1" by simp
  have g: "dict_get v ''name'' YNull = Inl (no_attribute v ''get'')"
    using assms(3) by (cases v) auto
  have "parse_frontmatter load skill_dir skill_file t = Inl (no_attribute v ''get'')"
    unfolding parse_frontmatter_def Let_def f sl using ne assms(2) g by simp
  then show ?thesis
    using manifest_parts_find(1) [OF assms(1)]
    by (simp add: parse_manifest_def no_attribute_def)
qed

text \<open>
  Validation of a front matter that is loaded as a mapping. Take a manifest whose front
  matter lies between the opening marker and the first marker after it. When the key
  \<^verbatim>\<open>name\<close> or the key \<^verbatim>\<open>description\<close> is absent from the mapping or has an empty
  value, parsing raises the \<^verbatim>\<open>ValueError\<close> for missing required fields. Otherwise
  it returns the metadata with the two values, the directory and the path it was given,
  and for the three optional keys the value of the mapping or, when the key is absent,
  the empty list, the version 1.0.0 and the empty author. Whatever the text and the
  loader are, metadata that parsing returns has a name and a description that are not
  empty.
\<close>

theorem parse_manifest_validation:
  "(manifest_parts t fm rest \<and> load (py_strip fm) = Inr (YMap m) \<longrightarrow>
      (field_missing m ''name'' \<or> field_missing m ''description'' \<longrightarrow>
         parse_manifest load skill_dir skill_file t = Inl missing_fields) \<and>
      (map_of m (YStr ''name'') = Some nv \<and> truthy nv \<and>
       map_of m (YStr ''description'') = Some dv \<and> truthy dv \<longrightarrow>
         parse_manifest load skill_dir skill_file t =
           Inr \<lparr>name = nv,
                description = dv,
                directory = skill_dir, skill_file_path = skill_file,
                dependencies = (case map_of m (YStr ''dependencies'') of
                                  None \<Rightarrow> YList [] | Some YNull \<Rightarrow> YList [] | Some v \<Rightarrow> v),
                version = (case map_of m (YStr ''version'') of
                             None \<Rightarrow> YStr ''1.0.0'' | Some v \<Rightarrow> v),
                author = (case map_of m (YStr ''author'') of
                            None \<Rightarrow> YStr [] | Some v \<Rightarrow> v)\<rparr>)) \<and>
   (\<forall>md. parse_manifest load skill_dir skill_file t = Inr md \<longrightarrow>
      truthy (name md) \<and> truthy (description md))"
proof (intro conjI impI allI)
  assume a: "manifest_parts t fm rest \<and> load (py_strip fm) = Inr (YMap m)"
  then have p: "prefix ''---'' t" using manifest_parts_find(1) by blast
  note pf = parse_frontmatter_mapping [of t fm rest load m skill_dir skill_file]
  {
    assume "field_missing m ''name'' \<or> field_missing m ''description''"
    then show "parse_manifest load skill_dir skill_file t = Inl missing_fields"
      using a p pf by (simp add: parse_manifest_def missing_fields_def)
  }
  {
    assume "map_of m (YStr ''name'') = Some nv \<and> truthy nv \<and>
            map_of m (YStr ''description'') = Some dv \<and> truthy dv"
    then have nm: "\<not> field_missing m ''name'' \<and> \<not> field_missing m ''description''"
      and vals: "the (map_of m (YStr ''name'')) = nv" "the (map_of m (YStr ''description'')) = dv"
      by (simp_all add: field_missing_def)
    show "parse_manifest load skill_dir skill_file t =
           Inr \<lparr>name = nv,
                description = dv,
                directory = skill_dir, skill_file_path = skill_file,
                dependencies = (case map_of m (YStr ''dependencies'') of
                                  None \<Rightarrow> YList [] | Some YNull \<Rightarrow> YList [] | Some v \<Rightarrow> v),
                version = (case map_of m (YStr ''version'') of
                             None \<Rightarrow> YStr ''1.0.0'' | Some v \<Rightarrow> v),
                author = (case map_of m (YStr ''author'') of
                            None \<Rightarrow> YStr [] | Some v \<Rightarrow> v)\<rparr>"
      using a p pf nm vals by (simp add: parse_manifest_def)
  }
next
  fix md
  assume "parse_manifest load skill_dir skill_file t = Inr md"
  then have "parse_frontmatter load skill_dir skill_file t = Inr md"
    by (rule parse_manifest_Inr)
  then show "truthy (name md)" and "truthy (description md)"
    using parse_frontmatter_Inr by blast+
qed

theorem parse_manifest_validation_witness:
  "parse_manifest pdf_loader ''./skills/pdf-tools'' ''./skills/pdf-tools/SKILL.md'' pdf_manifest
     = Inr pdf_metadata \<and>
   parse_manifest pdf_loader ''./skills/pdf-tools'' ''./skills/pdf-tools/SKILL.md''
     nameless_manifest = Inl missing_fields"
proof -
  have h1: "manifest_parts pdf_manifest pdf_front pdf_rest \<and>
            pdf_loader (py_strip pdf_front) = Inr (YMap pdf_frontmatter)"
    by code_simp
  have h2: "manifest_parts nameless_manifest nameless_front pdf_rest \<and>
            pdf_loader (py_strip nameless_front) = Inr (YMap nameless_frontmatter)"
    by code_simp
  have p1: "map_of pdf_frontmatter (YStr ''name'') = Some (YStr ''pdf-tools'') \<and>
            truthy (YStr ''pdf-tools'') \<and>
            map_of pdf_frontmatter (YStr ''description'')
              = Some (YStr ''extract text from pdf documents'') \<and>
            truthy (YStr ''extract text from pdf documents'')"
    by (simp add: pdf_frontmatter_def)
  have p2: "field_missing nameless_frontmatter ''name''" by code_simp
  have v: "\<lparr>name = YStr ''pdf-tools'',
            description = YStr ''extract text from pdf documents'',
            directory = ''./skills/pdf-tools'',
            skill_file_path = ''./skills/pdf-tools/SKILL.md'',
            dependencies = (case map_of pdf_frontmatter (YStr ''dependencies'') of
                              None \<Rightarrow> YList [] | Some YNull \<Rightarrow> YList [] | Some v \<Rightarrow> v),
            version = (case map_of pdf_frontmatter (YStr ''version'') of
                         None \<Rightarrow> YStr ''1.0.0'' | Some v \<Rightarrow> v),
            author = (case map_of pdf_frontmatter (YStr ''author'') of
                        None \<Rightarrow> YStr [] | Some v \<Rightarrow> v)\<rparr> = pdf_metadata"
    by (simp add: pdf_frontmatter_def pdf_metadata_def)
  from parse_manifest_validation
         [of pdf_manifest pdf_front pdf_rest pdf_loader pdf_frontmatter
             "''./skills/pdf-tools''" "''./skills/pdf-tools/SKILL.md''"
             "YStr ''pdf-tools''" "YStr ''extract text from pdf documents''"] h1 p1
  have c1: "parse_manifest pdf_loader ''./skills/pdf-tools'' ''./skills/pdf-tools/SKILL.md''
              pdf_manifest = Inr pdf_metadata"
    unfolding v by blast
  from parse_manifest_validation
         [of nameless_manifest nameless_front pdf_rest pdf_loader nameless_frontmatter
             "''./skills/pdf-tools''" "''./skills/pdf-tools/SKILL.md''"] h2 p2
  have c2: "parse_manifest pdf_loader ''./skills/pdf-tools'' ''./skills/pdf-tools/SKILL.md''
              nameless_manifest = Inl missing_fields"
    by blast
  from c1 c2 show ?thesis by blast
qed

text \<open>
  Claim C6 on the code. The front matter of the manifest is empty, so the key
  \<^verbatim>\<open>name\<close> is missing from it. The loader builds \<^verbatim>\<open>None\<close> from the empty document,
  and parsing does not raise the \<^verbatim>\<open>ValueError\<close> for missing required fields: the call
  of \<^verbatim>\<open>get\<close> on \<^verbatim>\<open>None\<close> raises an \<^verbatim>\<open>AttributeError\<close>.
\<close>

theorem parse_empty_front_matter:
  "manifest_parts empty_front_manifest ''\<newline>'' ''\<newline># Notes\<newline>'' \<and>
   py_strip ''\<newline>'' = [] \<and>
   empty_document_loader [] = Inr YNull \<and>
   parse_manifest empty_document_loader ''./skills/notes'' ''./skills/notes/SKILL.md''
     empty_front_manifest = Inl (no_attribute YNull ''get'') \<and>
   exc_class_of (no_attribute YNull ''get'') = AttributeError \<and>
   no_attribute YNull ''get'' \<noteq> missing_fields"
  by code_simp

section \<open>Matching skills to a task\<close>






section \<open>Loading a skill\<close>




subsection \<open>Registered tool names stay distinct\<close>











subsection \<open>Idempotence\<close>



end
